theory Spec2Isabelle
  imports Main "HOL-Library.Word" "HOL-Library.Monad_Syntax" "HOL-Library.Finite_Map"
begin

unbundle bit_operations_syntax

chapter \<open>Definitions\<close>

section \<open>Bytes, slices and runtime panics\<close>

type_synonym byte = "8 word"
type_synonym uint16 = "16 word"
type_synonym uint32 = "32 word"

text \<open>
  A Go index expression \<^verbatim>\<open>xs[i]\<close> and a slice expression \<^verbatim>\<open>xs[lo:hi]\<close> panic when
  they leave the slice. The panic is the value \<open>None\<close> of the option monad, so a
  function that indexes a buffer returns an option, and a read past the end of the
  buffer is visible in its result.
\<close>

definition idx :: "'a list \<Rightarrow> nat \<Rightarrow> 'a option" where
  "idx xs i = (if i < length xs then Some (xs ! i) else None)"

definition subslice :: "'a list \<Rightarrow> nat \<Rightarrow> nat \<Rightarrow> 'a list option" where
  "subslice xs lo hi =
     (if lo \<le> hi \<and> hi \<le> length xs then Some (take (hi - lo) (drop lo xs)) else None)"

text \<open>\<^verbatim>\<open>uint32(a)<<24 | uint32(b)<<16 | uint32(c)<<8 | uint32(d)\<close>\<close>

definition be32 :: "byte \<Rightarrow> byte \<Rightarrow> byte \<Rightarrow> byte \<Rightarrow> uint32" where
  "be32 a b c d =
     push_bit 24 (ucast a) OR push_bit 16 (ucast b) OR push_bit 8 (ucast c) OR ucast d"

section \<open>The legacy frame codec (ipmi/message.go)\<close>

record RMCPHeader =
  Version :: byte
  Reserved :: byte
  Seq :: byte
  Class :: byte

record Message = RMCPHeader +
  AuthType :: byte
  SessionID :: uint32
  Sequence :: uint32
  Command :: byte
  Data :: "byte list"

text \<open>The errors \<^verbatim>\<open>Unpack\<close> builds with \<^verbatim>\<open>fmt.Errorf\<close>, one constructor for each.\<close>

datatype error =
    MessageTooShort
  | UnsupportedRMCPVersion byte
  | UnsupportedMessageClass byte
  | MessageTooShortForCommand

text \<open>The zero value of \<^verbatim>\<open>Message\<close>, the receiver a caller declares before unpacking.\<close>

definition new_Message :: Message where
  "new_Message =
     \<lparr>Version = 0, Reserved = 0, Seq = 0, Class = 0,
      AuthType = 0, SessionID = 0, Sequence = 0, Command = 0, Data = []\<rparr>"

text \<open>
  \<^verbatim>\<open>Pack\<close> returns the bytes and a nil error: RMCP header, session header (the
  authentication type, five zero bytes, the session id with its most significant byte
  first), the command byte and the data.
\<close>

definition Pack :: "Message \<Rightarrow> byte list \<times> error option" where
  "Pack m =
     (let header = [Version m, Reserved m, Seq m, Class m];
          session = [AuthType m, 0x00, 0x00, 0x00, 0x00, 0x00,
                     ucast (drop_bit 24 (SessionID m)),
                     ucast (drop_bit 16 (SessionID m)),
                     ucast (drop_bit 8 (SessionID m)),
                     ucast (SessionID m)];
          cmd = [Command m]
      in ((header @ session) @ (cmd @ Data m), None))"

text \<open>
  \<^verbatim>\<open>Unpack\<close> writes into its receiver as it goes, so it returns the receiver as it
  stands when the function returns, with the error (\<open>None\<close> for nil). The outer
  option is the runtime panic of an index out of range.
\<close>

definition Unpack :: "Message \<Rightarrow> byte list \<Rightarrow> (error option \<times> Message) option" where
  "Unpack m data =
     (if length data < 15 then Some (Some MessageTooShort, m)
      else do {
        v \<leftarrow> idx data 0;
        r \<leftarrow> idx data 1;
        s \<leftarrow> idx data 2;
        c \<leftarrow> idx data 3;
        let m1 = m\<lparr>Version := v, Reserved := r, Seq := s, Class := c\<rparr>;
        if Version m1 \<noteq> 0x06 then Some (Some (UnsupportedRMCPVersion (Version m1)), m1)
        else if Class m1 \<noteq> 0x07 then Some (Some (UnsupportedMessageClass (Class m1)), m1)
        else do {
          a \<leftarrow> idx data 4;
          b10 \<leftarrow> idx data 10;
          b11 \<leftarrow> idx data 11;
          b12 \<leftarrow> idx data 12;
          b13 \<leftarrow> idx data 13;
          let m2 = m1\<lparr>AuthType := a, SessionID := be32 b10 b11 b12 b13\<rparr>;
          if length data < 15 then Some (Some MessageTooShortForCommand, m2)
          else do {
            cmd \<leftarrow> idx data 14;
            let m3 = m2\<lparr>Command := cmd\<rparr>;
            if length data > 15
            then do {
              rest \<leftarrow> subslice data 15 (length data);
              Some (None, m3\<lparr>Data := rest\<rparr>)
            }
            else Some (None, m3)
          }
        }
      })"

text \<open>A frame with a sequence number, used below as a concrete input.\<close>

definition frame_seq1 :: Message where
  "frame_seq1 =
     \<lparr>Version = 0x06, Reserved = 0, Seq = 0, Class = 0x07,
      AuthType = 0, SessionID = 0x01020304, Sequence = 1, Command = 0x38, Data = [0x0e, 0x04]\<rparr>"

section \<open>The RMCP+ session (pkg/ipmi/rmcplus.go, pkg/ipmi/lanplus.go)\<close>

definition RMCPPLUS_AUTH_NONE :: byte where "RMCPPLUS_AUTH_NONE = 0x00"
definition RMCPPLUS_AUTH_HMAC_SHA1 :: byte where "RMCPPLUS_AUTH_HMAC_SHA1 = 0x01"
definition RMCPPLUS_PAYLOAD_IPMI :: byte where "RMCPPLUS_PAYLOAD_IPMI = 0x00"
definition RMCPPLUS_PAYLOAD_RMCPPLUS :: byte where "RMCPPLUS_PAYLOAD_RMCPPLUS = 0x03"

text \<open>
  The fields of \<^verbatim>\<open>RMCPPlusHeader\<close> that share a name with a field of \<^verbatim>\<open>Message\<close>
  carry a prime.
\<close>

record RMCPPlusHeader =
  AuthType' :: byte
  PayloadType :: byte
  SessionID' :: uint32
  SequenceNumber :: uint32

record RMCPPlusMessage =
  Header :: RMCPPlusHeader
  Payload :: "byte list"

text \<open>
  The UDP connection is the environment. What the session writes to it is kept in
  \<open>written\<close>, oldest first; whether a dial, a write, a deadline or a read succeeds, and
  what a read delivers, are arguments of the functions below. A nil connection is
  \<open>None\<close>, and a method call on it panics.
\<close>

record Conn =
  written :: "byte list list"
  closed :: bool

record LANPlus =
  conn :: "Conn option"
  sessionID :: uint32
  sequenceNum :: uint32
  managedID :: uint32
  authType :: byte
  username :: string
  password :: string
  timeout :: int
  active :: bool
  priv :: byte
  authenticated :: bool

datatype lan_error =
    SessionNotActive
  | SendFailed
  | SetDeadlineFailed
  | ReadFailed
  | ResponseTooShort
  | InvalidRMCPHeader
  | UnexpectedPayloadType byte
  | InvalidSessionID
  | PayloadLengthExceeds
  | TooShortForAuthCode
  | AuthenticationFailed
  | DialFailed
  | RandFailed
  | SendRAKPFailed lan_error
  | NotYetImplemented
  | SessionOpenFailed lan_error

text \<open>
  \<^verbatim>\<open>NewLANPlus\<close>: the defaults, then the options in order. The timeout is in
  nanoseconds.
\<close>

definition NewLANPlus :: "(LANPlus \<Rightarrow> LANPlus) list \<Rightarrow> LANPlus" where
  "NewLANPlus opts =
     fold (\<lambda>opt l. opt l) opts
       \<lparr>conn = None, sessionID = 0, sequenceNum = 0, managedID = 0,
        authType = RMCPPLUS_AUTH_HMAC_SHA1, username = [], password = [],
        timeout = 5 * 1000000000, active = False, priv = 0x04, authenticated = False\<rparr>"

definition WithTimeout :: "int \<Rightarrow> LANPlus \<Rightarrow> LANPlus" where
  "WithTimeout t l = l\<lparr>timeout := t\<rparr>"

definition WithCredentials :: "string \<Rightarrow> string \<Rightarrow> LANPlus \<Rightarrow> LANPlus" where
  "WithCredentials u p l = l\<lparr>username := u, password := p\<rparr>"

definition WithPrivilegeLevel :: "byte \<Rightarrow> LANPlus \<Rightarrow> LANPlus" where
  "WithPrivilegeLevel p l = l\<lparr>priv := p\<rparr>"

text \<open>\<^verbatim>\<open>encoding/binary\<close>, little endian. Reading from a short slice panics.\<close>

definition LittleEndian_Uint32 :: "byte list \<Rightarrow> uint32 option" where
  "LittleEndian_Uint32 b = do {
     b3 \<leftarrow> idx b 3;
     b0 \<leftarrow> idx b 0;
     b1 \<leftarrow> idx b 1;
     b2 \<leftarrow> idx b 2;
     Some (be32 b3 b2 b1 b0)
   }"

definition LittleEndian_Uint16 :: "byte list \<Rightarrow> uint16 option" where
  "LittleEndian_Uint16 b = do {
     b1 \<leftarrow> idx b 1;
     b0 \<leftarrow> idx b 0;
     Some (ucast b0 OR push_bit 8 (ucast b1))
   }"

definition LittleEndian_PutUint32 :: "uint32 \<Rightarrow> byte list" where
  "LittleEndian_PutUint32 v =
     [ucast v, ucast (drop_bit 8 v), ucast (drop_bit 16 v), ucast (drop_bit 24 v)]"

definition LittleEndian_PutUint16 :: "uint16 \<Rightarrow> byte list" where
  "LittleEndian_PutUint16 v = [ucast v, ucast (drop_bit 8 v)]"

text \<open>
  \<^verbatim>\<open>generateAuthCode\<close> is HMAC-SHA1 of the data under the password. The hash is the
  standard library's: \<open>H key data\<close> stands for it.
\<close>

type_synonym hmac = "string \<Rightarrow> byte list \<Rightarrow> byte list"

definition generateAuthCode :: "hmac \<Rightarrow> LANPlus \<Rightarrow> byte list \<Rightarrow> byte list" where
  "generateAuthCode H l data = H (password l) data"

text \<open>
  \<^verbatim>\<open>SendMessage\<close>. \<open>wfail\<close> says that the write to the connection fails. The
  result is the error (\<open>None\<close> for nil) and the session afterwards.
\<close>

definition SendMessage ::
  "hmac \<Rightarrow> bool \<Rightarrow> LANPlus \<Rightarrow> byte list \<Rightarrow> (lan_error option \<times> LANPlus) option" where
  "SendMessage H wfail l msg =
     (if \<not> active l then Some (Some SessionNotActive, l)
      else
        let rmcpMsg = \<lparr>Header = \<lparr>AuthType' = authType l,
                                   PayloadType = RMCPPLUS_PAYLOAD_IPMI,
                                   SessionID' = sessionID l,
                                   SequenceNumber = sequenceNum l\<rparr>,
                       Payload = msg\<rparr>;
            buf0 = [0x06, 0x00, 0x00, 0x07];
            buf1 = buf0 @ [AuthType' (Header rmcpMsg)];
            buf2 = buf1 @ [PayloadType (Header rmcpMsg)];
            buf3 = buf2 @ LittleEndian_PutUint32 (SessionID' (Header rmcpMsg));
            buf4 = buf3 @ LittleEndian_PutUint32 (SequenceNumber (Header rmcpMsg));
            buf5 = buf4 @ LittleEndian_PutUint16 (of_nat (length (Payload rmcpMsg)));
            buf6 = buf5 @ Payload rmcpMsg;
            buf = (if authType l \<noteq> RMCPPLUS_AUTH_NONE \<and> authenticated l
                   then buf6 @ generateAuthCode H l buf6 else buf6)
        in do {
          c \<leftarrow> conn l;
          if wfail then Some (Some SendFailed, l)
          else Some (None, l\<lparr>conn := Some (c\<lparr>written := written c @ [buf]\<rparr>),
                               sequenceNum := sequenceNum l + 1\<rparr>)
        })"

text \<open>
  \<^verbatim>\<open>ReceiveMessage\<close>. \<open>dfail\<close> says that setting the read deadline fails; \<open>rd\<close> is
  what the read returns: \<open>None\<close> for an error, or the number \<open>n\<close> of bytes read with
  the buffer they were read into. The result is the error or the payload, and the
  session afterwards.
\<close>

definition ReceiveMessage ::
  "hmac \<Rightarrow> bool \<Rightarrow> (nat \<times> byte list) option \<Rightarrow> LANPlus \<Rightarrow>
     ((lan_error + byte list) \<times> LANPlus) option" where
  "ReceiveMessage H dfail rd l =
     (if \<not> active l then Some (Inl SessionNotActive, l)
      else do {
        c \<leftarrow> conn l;
        if dfail then Some (Inl SetDeadlineFailed, l)
        else case rd of
          None \<Rightarrow> Some (Inl ReadFailed, l)
        | Some (n, buf) \<Rightarrow>
            if n < 16 then Some (Inl ResponseTooShort, l)
            else do {
              b0 \<leftarrow> idx buf 0;
              bad \<leftarrow> (if b0 \<noteq> 0x06 then Some True
                      else do { b3 \<leftarrow> idx buf 3; Some (b3 \<noteq> 0x07) });
              if bad then Some (Inl InvalidRMCPHeader, l)
              else do {
                authType \<leftarrow> idx buf 4;
                payloadType \<leftarrow> idx buf 5;
                if payloadType \<noteq> RMCPPLUS_PAYLOAD_IPMI
                then Some (Inl (UnexpectedPayloadType payloadType), l)
                else do {
                  sidb \<leftarrow> subslice buf 6 10;
                  sessionID \<leftarrow> LittleEndian_Uint32 sidb;
                  seqb \<leftarrow> subslice buf 10 14;
                  seqn \<leftarrow> LittleEndian_Uint32 seqb;
                  let l1 = l\<lparr>sequenceNum := seqn\<rparr>;
                  lenb \<leftarrow> subslice buf 14 16;
                  payloadLen \<leftarrow> LittleEndian_Uint16 lenb;
                  if sessionID \<noteq> LANPlus.sessionID l1 then Some (Inl InvalidSessionID, l1)
                  else
                    let payloadStart = 16;
                        payloadEnd = payloadStart + unat payloadLen
                    in if payloadEnd > n then Some (Inl PayloadLengthExceeds, l1)
                       else do {
                         payload \<leftarrow> subslice buf payloadStart payloadEnd;
                         if authType \<noteq> RMCPPLUS_AUTH_NONE \<and> authenticated l1
                         then
                           if payloadEnd + 20 > n then Some (Inl TooShortForAuthCode, l1)
                           else do {
                             receivedAuth \<leftarrow> subslice buf payloadEnd (payloadEnd + 20);
                             signed \<leftarrow> subslice buf 0 payloadEnd;
                             let expectedAuth = generateAuthCode H l1 signed;
                             if receivedAuth \<noteq> expectedAuth
                             then Some (Inl AuthenticationFailed, l1)
                             else Some (Inr payload, l1)
                           }
                         else Some (Inr payload, l1)
                       }
                }
              }
            }
      })"

text \<open>
  \<^verbatim>\<open>openSession\<close>. \<open>rnd\<close> is what \<^verbatim>\<open>rand.Read\<close> delivers into the four-byte
  buffer, \<open>None\<close> when it fails.
\<close>

definition openSession ::
  "hmac \<Rightarrow> (byte \<times> byte \<times> byte \<times> byte) option \<Rightarrow> bool \<Rightarrow> LANPlus \<Rightarrow>
     (lan_error option \<times> LANPlus) option" where
  "openSession H rnd wfail l =
     (case rnd of
        None \<Rightarrow> Some (Some RandFailed, l)
      | Some (r0, r1, r2, r3) \<Rightarrow> do {
          sid \<leftarrow> LittleEndian_Uint32 [r0, r1, r2, r3];
          let l1 = l\<lparr>sessionID := sid\<rparr>;
          let rakpMsg = [0x10, 0x00, 0x00, 0x00, 0x00, 0x00];
          let msg = \<lparr>Header = \<lparr>AuthType' = authType l1,
                                  PayloadType = RMCPPLUS_PAYLOAD_RMCPPLUS,
                                  SessionID' = 0,
                                  SequenceNumber = 0\<rparr>,
                      Payload = rakpMsg\<rparr>;
          (err, l2) \<leftarrow> SendMessage H wfail l1 (Payload msg);
          case err of
            Some e \<Rightarrow> Some (Some (SendRAKPFailed e), l2)
          | None \<Rightarrow> Some (Some NotYetImplemented, l2)
        })"

text \<open>
  \<^verbatim>\<open>Connect\<close>. \<open>dial addr\<close> says that the dial to \<open>addr\<close> succeeds; the connection
  it returns has nothing written to it yet.
\<close>

definition Connect ::
  "hmac \<Rightarrow> (string \<Rightarrow> bool) \<Rightarrow> (byte \<times> byte \<times> byte \<times> byte) option \<Rightarrow> bool \<Rightarrow>
     LANPlus \<Rightarrow> string \<Rightarrow> (lan_error option \<times> LANPlus) option" where
  "Connect H dial rnd wfail l addr =
     (if \<not> dial addr then Some (Some DialFailed, l)
      else
        let l1 = l\<lparr>conn := Some \<lparr>written = [], closed = False\<rparr>\<rparr>
        in do {
          (err, l2) \<leftarrow> openSession H rnd wfail l1;
          case err of
            Some e \<Rightarrow> do {
              c \<leftarrow> conn l2;
              Some (Some (SessionOpenFailed e), l2\<lparr>conn := Some (c\<lparr>closed := True\<rparr>)\<rparr>)
            }
          | None \<Rightarrow> Some (None, l2\<lparr>active := True\<rparr>)
        })"

text \<open>
  The fields of a received frame as the decoder reads them: the 32-bit and the 16-bit
  little-endian number at an offset of the buffer.
\<close>

definition le32_at :: "byte list \<Rightarrow> nat \<Rightarrow> uint32" where
  "le32_at buf off = be32 (buf ! (off + 3)) (buf ! (off + 2)) (buf ! (off + 1)) (buf ! off)"

definition le16_at :: "byte list \<Rightarrow> nat \<Rightarrow> uint16" where
  "le16_at buf off = ucast (buf ! off) OR push_bit 8 (ucast (buf ! (off + 1)))"

text \<open>
  A run of a session: each step is a \<^verbatim>\<open>SendMessage\<close> or a \<^verbatim>\<open>ReceiveMessage\<close> with
  what the connection does at that step, and the run goes on whatever error a step
  returns, as a caller that retries does. A panic ends it.
\<close>

datatype lan_op = Send "byte list" bool | Receive bool "(nat \<times> byte list) option"

fun run_op :: "hmac \<Rightarrow> lan_op \<Rightarrow> LANPlus \<Rightarrow> LANPlus option" where
  "run_op H (Send msg wfail) l = map_option snd (SendMessage H wfail l msg)"
| "run_op H (Receive dfail rd) l = map_option snd (ReceiveMessage H dfail rd l)"

fun run_ops :: "hmac \<Rightarrow> lan_op list \<Rightarrow> LANPlus \<Rightarrow> LANPlus option" where
  "run_ops H [] l = Some l"
| "run_ops H (x # xs) l = Option.bind (run_op H x l) (run_ops H xs)"

fun is_Send :: "lan_op \<Rightarrow> bool" where
  "is_Send (Send msg wfail) = True"
| "is_Send (Receive dfail rd) = False"

text \<open>
  Concrete inputs: a stand-in for the hash where no authentication code is checked, an
  active session whose counter stands at 5, a 16-byte frame with payload type SOL and
  a 16-byte IPMI frame with sequence number 0, both for session id 0.
\<close>

definition H0 :: hmac where
  "H0 key data = []"

definition fresh_conn :: Conn where
  "fresh_conn = \<lparr>written = [], closed = False\<rparr>"

definition session5 :: LANPlus where
  "session5 = (NewLANPlus [])\<lparr>conn := Some fresh_conn, active := True, sequenceNum := 5\<rparr>"

definition frame_sol :: "byte list" where
  "frame_sol = [0x06, 0, 0, 0x07, 0, 0x01, 0, 0, 0, 0, 0, 0, 0, 0, 0, 0]"

definition frame_seq0 :: "byte list" where
  "frame_seq0 = [0x06, 0, 0, 0x07, 0, 0, 0, 0, 0, 0, 0, 0, 0, 0, 0, 0]"

section \<open>The chassis command handlers (the bmc package's server)\<close>

text \<open>
  The handlers name constants of the IPMI library \<^verbatim>\<open>github.com/ooneko/goipmi\<close>, which
  is not part of the repository: completion codes, chassis control codes, the boot
  flags parameter and the boot device selectors. Their values are a parameter \<open>g\<close>
  of the handlers. The library's \<^verbatim>\<open>BootDeviceFloppy\<close> carries a prime, the name
  without it being the hypervisor client's.
\<close>

record goipmi =
  CommandCompleted :: byte
  ErrInvalidCommand :: byte
  ErrInvalidObjCommand :: byte
  ErrUnspecified :: byte
  ControlPowerDown :: byte
  ControlPowerUp :: byte
  ControlPowerCycle :: byte
  ControlPowerHardReset :: byte
  BootParamBootFlags :: byte
  BootDeviceNone :: byte
  BootDeviceDisk :: byte
  BootDeviceCdrom :: byte
  BootDevicePxe :: byte
  BootDeviceFloppy' :: byte

text \<open>
  A response is a bare completion code or one of the library's response structures,
  with its completion code.
\<close>

datatype Response =
    CompletionCode byte
  | ChassisControlResponse byte
  | SetSystemBootOptionsResponse byte

text \<open>The boot devices of the hypervisor client (package vsphere).\<close>

datatype BootDevice = BootDeviceHDD | BootDeviceCDROM | BootDevicePXE | BootDeviceFloppy

text \<open>
  The hypervisor is the environment. A handler's calls to the client are recorded in
  a trace, oldest first, and \<open>hv tr c\<close> says that the call \<open>c\<close>, made after the calls
  \<open>tr\<close>, returns an error.
\<close>

datatype hv_call = PowerOffVM | PowerOnVM | ResetVM | SetNextBoot BootDevice

type_synonym hypervisor = "hv_call list \<Rightarrow> hv_call \<Rightarrow> bool"

definition vs_call :: "hypervisor \<Rightarrow> hv_call list \<Rightarrow> hv_call \<Rightarrow> bool \<times> hv_call list" where
  "vs_call hv tr c = (hv tr c, tr @ [c])"

text \<open>
  \<^verbatim>\<open>handleChassisControl\<close>. \<open>req\<close> is what \<^verbatim>\<open>m.Request(req)\<close> parses from the
  message: \<open>None\<close> when it fails, or the chassis control code. The result is the
  response and the trace afterwards.
\<close>

definition handleChassisControl ::
  "goipmi \<Rightarrow> hypervisor \<Rightarrow> byte option \<Rightarrow> hv_call list \<Rightarrow> Response \<times> hv_call list" where
  "handleChassisControl g hv req tr =
     (case req of
        None \<Rightarrow> (CompletionCode (ErrInvalidCommand g), tr)
      | Some cc \<Rightarrow>
          if cc = ControlPowerDown g then
            (let (err, tr1) = vs_call hv tr PowerOffVM
             in if err then (CompletionCode (ErrUnspecified g), tr1)
                else (CompletionCode (CommandCompleted g), tr1))
          else if cc = ControlPowerUp g then
            (let (err, tr1) = vs_call hv tr PowerOnVM
             in if err then (CompletionCode (ErrUnspecified g), tr1)
                else (CompletionCode (CommandCompleted g), tr1))
          else if cc = ControlPowerHardReset g then
            (let (err, tr1) = vs_call hv tr ResetVM
             in if err then (CompletionCode (ErrUnspecified g), tr1)
                else (CompletionCode (CommandCompleted g), tr1))
          else if cc = ControlPowerCycle g then
            (let (err, tr1) = vs_call hv tr PowerOffVM
             in if err then (CompletionCode (ErrUnspecified g), tr1)
                else
                  let (err2, tr2) = vs_call hv tr1 PowerOnVM
                  in if err2 then (CompletionCode (ErrUnspecified g), tr2)
                     else (CompletionCode (CommandCompleted g), tr2))
          else (CompletionCode (ErrInvalidCommand g), tr))"

text \<open>The request of Set System Boot Options, as the library parses it.\<close>

record SetSystemBootOptionsRequest =
  Param :: byte
  Data' :: "byte list"

text \<open>
  \<^verbatim>\<open>handleSetSystemBootOptions\<close>. The switch is on \<^verbatim>\<open>req.Data[1]\<close> as it is; the
  index panics (\<open>None\<close>) when the request has fewer than two data bytes.
\<close>

definition handleSetSystemBootOptions ::
  "goipmi \<Rightarrow> hypervisor \<Rightarrow> SetSystemBootOptionsRequest option \<Rightarrow> hv_call list \<Rightarrow>
     (Response \<times> hv_call list) option" where
  "handleSetSystemBootOptions g hv req tr =
     (case req of
        None \<Rightarrow> Some (CompletionCode (ErrUnspecified g), tr)
      | Some r \<Rightarrow>
          if Param r \<noteq> BootParamBootFlags g
          then Some (SetSystemBootOptionsResponse (CommandCompleted g), tr)
          else do {
            d1 \<leftarrow> idx (Data' r) 1;
            case (if d1 = BootDeviceNone g
                  then Inl (SetSystemBootOptionsResponse (CommandCompleted g))
                  else if d1 = BootDeviceDisk g then Inr BootDeviceHDD
                  else if d1 = BootDeviceCdrom g then Inr BootDeviceCDROM
                  else if d1 = BootDevicePxe g then Inr BootDevicePXE
                  else if d1 = BootDeviceFloppy' g then Inr BootDeviceFloppy
                  else Inl (CompletionCode (ErrInvalidObjCommand g))) of
              Inl resp \<Rightarrow> Some (resp, tr)
            | Inr bootDevice \<Rightarrow>
                let (err, tr1) = vs_call hv tr (SetNextBoot bootDevice)
                in if err then Some (CompletionCode (ErrUnspecified g), tr1)
                   else Some (SetSystemBootOptionsResponse (CommandCompleted g), tr1)
          })"

section \<open>The earlier handlers (the ipmi package's server)\<close>

text \<open>
  The server of package ipmi registers the same handlers in an earlier form: chassis
  control codes as numbers, completion code 0x01 for every failure, and the boot
  device selector masked with 0x3F.
\<close>

definition handleChassisControl_ipmi ::
  "hypervisor \<Rightarrow> byte option \<Rightarrow> hv_call list \<Rightarrow> Response \<times> hv_call list" where
  "handleChassisControl_ipmi hv req tr =
     (case req of
        None \<Rightarrow> (CompletionCode 0x01, tr)
      | Some cc \<Rightarrow>
          if cc = 0x00 then
            (let (err, tr1) = vs_call hv tr PowerOffVM
             in if err then (CompletionCode 0x01, tr1) else (ChassisControlResponse 0x00, tr1))
          else if cc = 0x01 then
            (let (err, tr1) = vs_call hv tr PowerOnVM
             in if err then (CompletionCode 0x01, tr1) else (ChassisControlResponse 0x00, tr1))
          else if cc = 0x03 then
            (let (err, tr1) = vs_call hv tr ResetVM
             in if err then (CompletionCode 0x01, tr1) else (ChassisControlResponse 0x00, tr1))
          else if cc = 0x02 then
            (let (err, tr1) = vs_call hv tr PowerOffVM
             in if err then (CompletionCode 0x01, tr1)
                else
                  let (err2, tr2) = vs_call hv tr1 PowerOnVM
                  in if err2 then (CompletionCode 0x01, tr2)
                     else (ChassisControlResponse 0x00, tr2))
          else (CompletionCode 0x01, tr))"

definition handleSetSystemBootOptions_ipmi ::
  "goipmi \<Rightarrow> hypervisor \<Rightarrow> SetSystemBootOptionsRequest option \<Rightarrow> hv_call list \<Rightarrow>
     (Response \<times> hv_call list) option" where
  "handleSetSystemBootOptions_ipmi g hv req tr =
     (case req of
        None \<Rightarrow> Some (CompletionCode 0x01, tr)
      | Some r \<Rightarrow>
          if Param r \<noteq> BootParamBootFlags g
          then Some (SetSystemBootOptionsResponse 0x00, tr)
          else do {
            d1 \<leftarrow> idx (Data' r) 1;
            case (if d1 AND 0x3F = BootDeviceNone g
                  then Inl (SetSystemBootOptionsResponse 0x00)
                  else if d1 AND 0x3F = BootDeviceDisk g then Inr BootDeviceHDD
                  else if d1 AND 0x3F = BootDeviceCdrom g then Inr BootDeviceCDROM
                  else if d1 AND 0x3F = BootDevicePxe g then Inr BootDevicePXE
                  else if d1 AND 0x3F = BootDeviceFloppy' g then Inr BootDeviceFloppy
                  else Inl (CompletionCode 0x01)) of
              Inl resp \<Rightarrow> Some (resp, tr)
            | Inr bootDevice \<Rightarrow>
                let (err, tr1) = vs_call hv tr (SetNextBoot bootDevice)
                in if err then Some (CompletionCode 0x01, tr1)
                   else Some (SetSystemBootOptionsResponse 0x00, tr1)
          })"

text \<open>
  Modelled from the spec: the values of the library's constants, which the repository
  does not hold. The spec gives \<^verbatim>\<open>CommandCompleted\<close> as 0x00 and has the other
  completion codes follow the standard IPMI table, where an invalid command is 0xC1
  and an unspecified error 0xFF, as the table of ipmi/message.go lists them; 0xCD
  stands for \<^verbatim>\<open>ErrInvalidObjCommand\<close>, of which nothing but its name is used. Chassis
  control codes are as the ipmi server writes them (0 power down, 1 power up, 2 power
  cycle, 3 hard reset); the boot flags parameter and the boot device selectors are
  those of the IPMI specification (parameter 5; selectors 0x00 none, 0x04 PXE, 0x08
  disk, 0x14 CD or DVD, 0x3C floppy).
\<close>

definition ipmi_tables :: goipmi where
  "ipmi_tables =
     \<lparr>CommandCompleted = 0x00, ErrInvalidCommand = 0xC1, ErrInvalidObjCommand = 0xCD,
      ErrUnspecified = 0xFF,
      ControlPowerDown = 0x00, ControlPowerUp = 0x01, ControlPowerCycle = 0x02,
      ControlPowerHardReset = 0x03,
      BootParamBootFlags = 0x05,
      BootDeviceNone = 0x00, BootDeviceDisk = 0x08, BootDeviceCdrom = 0x14,
      BootDevicePxe = 0x04, BootDeviceFloppy' = 0x3C\<rparr>"

text \<open>A hypervisor on which powering on fails and every other call succeeds.\<close>

definition power_on_fails :: hypervisor where
  "power_on_fails tr c = (c = PowerOnVM)"

section \<open>The session simulator (bmc/ipmi2_simulator.go)\<close>

record ipmi2Session =
  ID :: uint32
  Username :: string
  Privilege :: byte

text \<open>
  The simulator's own fields; the embedded library simulator and the logger hold
  nothing the handlers below read. The simulator of package ipmi is the same, without
  the logger.
\<close>

record IPMI2Simulator =
  sessionSupport :: bool
  users :: "(string, string) fmap"
  sessions :: "(uint32, ipmi2Session) fmap"

definition NewIPMI2Simulator :: IPMI2Simulator where
  "NewIPMI2Simulator =
     \<lparr>sessionSupport = True,
      users = fmupd ''admin'' ''password'' fmempty,
      sessions = fmempty\<rparr>"

definition handleGetSessionChallenge ::
  "goipmi \<Rightarrow> IPMI2Simulator \<Rightarrow> 'm \<Rightarrow> Response \<times> IPMI2Simulator" where
  "handleGetSessionChallenge g s m = (CompletionCode (CommandCompleted g), s)"

text \<open>\<^verbatim>\<open>handleActivateSession\<close>: the id is \<^verbatim>\<open>uint32(len(s.sessions) + 1)\<close>.\<close>

definition handleActivateSession ::
  "goipmi \<Rightarrow> IPMI2Simulator \<Rightarrow> 'm \<Rightarrow> Response \<times> IPMI2Simulator" where
  "handleActivateSession g s m =
     (let sessionID = (of_nat (fcard (fmdom (sessions s)) + 1) :: uint32)
      in (CompletionCode (CommandCompleted g),
          s\<lparr>sessions := fmupd sessionID
                \<lparr>ID = sessionID, Username = ''admin'', Privilege = 0x04\<rparr> (sessions s)\<rparr>))"

definition handleCloseSession ::
  "goipmi \<Rightarrow> IPMI2Simulator \<Rightarrow> 'm \<Rightarrow> Response \<times> IPMI2Simulator" where
  "handleCloseSession g s m = (CompletionCode (CommandCompleted g), s)"

section \<open>Address assignment at startup (main.go)\<close>

text \<open>
  A \<^verbatim>\<open>net.IP\<close> is a byte slice: a reference to an array that every copy of the slice
  value shares. \<^verbatim>\<open>incrementIP\<close> writes through the reference, \<^verbatim>\<open>ipRange\<close> calls it
  on its argument, and \<^verbatim>\<open>NewServer\<close> stores the slice it is given. The arrays live
  in a store, from addresses to contents, and a slice is an address.
\<close>

type_synonym IP = "byte list"
type_synonym ref = nat
type_synonym store = "ref \<Rightarrow> IP"

text \<open>
  \<^verbatim>\<open>incrementIP\<close>: from the last byte down, add one and stop at the first byte that
  does not wrap to 0. \<open>incrementIP_from (Suc i)\<close> is the loop at index \<open>i\<close>.
\<close>

fun incrementIP_from :: "nat \<Rightarrow> IP \<Rightarrow> IP" where
  "incrementIP_from 0 ip = ip"
| "incrementIP_from (Suc i) ip =
     (let ip' = ip[i := ip ! i + 1]
      in if ip' ! i > 0 then ip' else incrementIP_from i ip')"

definition incrementIP :: "IP \<Rightarrow> IP" where
  "incrementIP ip = incrementIP_from (length ip) ip"

text \<open>
  \<^verbatim>\<open>ipRange\<close> counts from 1 and increments \<open>start\<close> in place until it equals
  \<open>end\<close>; it returns the count, and the store holds what it did to \<open>start\<close>. The
  loop has no bound, so not returning is \<open>None\<close>. Both addresses come from
  \<^verbatim>\<open>To4()\<close>, four bytes or nil, where \<^verbatim>\<open>Equal\<close> is equality of the bytes.
\<close>

partial_function (option) ipRange_loop ::
  "int \<Rightarrow> ref \<Rightarrow> ref \<Rightarrow> store \<Rightarrow> (int \<times> store) option" where
  "ipRange_loop i start end' h =
     (if h start = h end' then Some (i, h)
      else ipRange_loop (i + 1) start end' (h(start := incrementIP (h start))))"

definition ipRange :: "ref \<Rightarrow> ref \<Rightarrow> store \<Rightarrow> (int \<times> store) option" where
  "ipRange start end' h = ipRange_loop 1 start end' h"

text \<open>The fields of \<^verbatim>\<open>Server\<close> the assignment sets: the machine and the address slice.\<close>

record 'vm Server =
  vm :: 'vm
  ip :: ref

definition NewServer :: "'vm \<Rightarrow> ref \<Rightarrow> 'vm Server" where
  "NewServer v a = \<lparr>vm = v, ip = a\<rparr>"

text \<open>The fatal exits of \<^verbatim>\<open>main\<close> during the assignment.\<close>

datatype startup_error = NotEnoughIPs nat int | BadNetmask | NoMoreIPs

text \<open>
  The result of the assignment: the servers in the order of the machines, the line
  "Started virtual BMC for VM ... on IP ..." logged for each with the address
  \<open>currentIP\<close> holds at that moment, and the store when the loop is over. A server
  binds its socket in a goroutine of its own, to what its slice holds when that runs.
\<close>

record 'vm fleet =
  servers :: "'vm Server list"
  started :: "('vm \<times> IP) list"
  arrays :: store

text \<open>The address each server's slice holds once the loop is over.\<close>

definition final_addresses :: "'vm fleet \<Rightarrow> IP list" where
  "final_addresses f = map (\<lambda>s. arrays f (ip s)) (servers f)"

text \<open>The loop of \<^verbatim>\<open>main\<close> over the machines (main.go).\<close>

fun start_servers :: "'vm list \<Rightarrow> ref \<Rightarrow> store \<Rightarrow> 'vm fleet" where
  "start_servers [] currentIP h = \<lparr>servers = [], started = [], arrays = h\<rparr>"
| "start_servers (v # vms) currentIP h =
     (let server = NewServer v currentIP;
          line = (v, h currentIP);
          h' = h(currentIP := incrementIP (h currentIP));
          f = start_servers vms currentIP h'
      in f\<lparr>servers := server # servers f, started := line # started f\<rparr>)"

text \<open>
  \<^verbatim>\<open>main\<close> from the parsed range to the end of the loop: \<open>startIP\<close>, \<open>endIP\<close> and
  \<open>currentIP\<close> are three arrays, at the addresses 0, 1 and 2.
\<close>

definition startup :: "IP \<Rightarrow> IP \<Rightarrow> 'vm list \<Rightarrow> (startup_error + 'vm fleet) option" where
  "startup start end' vms =
     (let startIP = 0; endIP = 1; currentIP = 2;
          h0 = (\<lambda>a. [])(startIP := start, endIP := end')
      in do {
        (ipCount, h1) \<leftarrow> ipRange startIP endIP h0;
        if ipCount < int (length vms) then Some (Inl (NotEnoughIPs (length vms) ipCount))
        else
          let h2 = h1(currentIP := h1 startIP)
          in Some (Inr (start_servers vms currentIP h2))
      })"

text \<open>
  The later \<^verbatim>\<open>main\<close> keeps the addresses it has used, keyed by their text, and skips
  a used one; the key of a four-byte address determines it, so the set holds the
  addresses themselves. \<open>skip_used\<close> is the inner loop.
\<close>

partial_function (option) skip_used ::
  "IP list \<Rightarrow> ref \<Rightarrow> ref \<Rightarrow> store \<Rightarrow> (startup_error + store) option" where
  "skip_used usedIPs currentIP endIP h =
     (if h currentIP \<in> set usedIPs
      then
        let h' = h(currentIP := incrementIP (h currentIP))
        in if h' currentIP = h' endIP then Some (Inl NoMoreIPs)
           else skip_used usedIPs currentIP endIP h'
      else Some (Inr h))"

fun start_servers_used ::
  "'vm list \<Rightarrow> IP list \<Rightarrow> ref \<Rightarrow> ref \<Rightarrow> store \<Rightarrow> (startup_error + 'vm fleet) option" where
  "start_servers_used [] usedIPs currentIP endIP h =
     Some (Inr \<lparr>servers = [], started = [], arrays = h\<rparr>)"
| "start_servers_used (v # vms) usedIPs currentIP endIP h =
     (case skip_used usedIPs currentIP endIP h of
        None \<Rightarrow> None
      | Some (Inl e) \<Rightarrow> Some (Inl e)
      | Some (Inr h1) \<Rightarrow>
          let usedIPs' = h1 currentIP # usedIPs;
              server = NewServer v currentIP;
              line = (v, h1 currentIP);
              h2 = h1(currentIP := incrementIP (h1 currentIP))
          in case start_servers_used vms usedIPs' currentIP endIP h2 of
               None \<Rightarrow> None
             | Some (Inl e) \<Rightarrow> Some (Inl e)
             | Some (Inr f) \<Rightarrow>
                 Some (Inr (f\<lparr>servers := server # servers f, started := line # started f\<rparr>)))"

text \<open>\<open>netmask_ok\<close> says that the configured netmask parses.\<close>

definition startup_used ::
  "IP \<Rightarrow> IP \<Rightarrow> bool \<Rightarrow> 'vm list \<Rightarrow> (startup_error + 'vm fleet) option" where
  "startup_used start end' netmask_ok vms =
     (let startIP = 0; endIP = 1; currentIP = 2;
          h0 = (\<lambda>a. [])(startIP := start, endIP := end')
      in do {
        (ipCount, h1) \<leftarrow> ipRange startIP endIP h0;
        if ipCount < int (length vms) then Some (Inl (NotEnoughIPs (length vms) ipCount))
        else if \<not> netmask_ok then Some (Inl BadNetmask)
        else
          let usedIPs = [];
              h2 = h1(currentIP := h1 startIP)
          in start_servers_used vms usedIPs currentIP endIP h2
      })"

chapter \<open>Theorems\<close>

section \<open>The legacy frame codec\<close>

lemma be32_bytes:
  "be32 (ucast (drop_bit 24 w)) (ucast (drop_bit 16 w)) (ucast (drop_bit 8 w)) (ucast w) = w"
proof (rule bit_word_eqI)
  fix n :: nat
  assume "n < LENGTH(32)"
  then have lt: "n < 32" by simp
  consider "n < 8" | "8 \<le> n \<and> n < 16" | "16 \<le> n \<and> n < 24" | "24 \<le> n"
    by linarith
  then show "bit (be32 (ucast (drop_bit 24 w)) (ucast (drop_bit 16 w))
                   (ucast (drop_bit 8 w)) (ucast w)) n = bit w n"
    by cases (use lt in \<open>auto simp add: be32_def bit_simps\<close>)
qed

lemma Pack_bytes:
  "fst (Pack f) =
     [Version f, Reserved f, Seq f, Class f, AuthType f, 0, 0, 0, 0, 0,
      ucast (drop_bit 24 (SessionID f)), ucast (drop_bit 16 (SessionID f)),
      ucast (drop_bit 8 (SessionID f)), ucast (SessionID f), Command f] @ Data f"
  by (simp add: Pack_def)

lemma Unpack_prefix:
  assumes "v = 0x06" and "c = 0x07"
  shows "Unpack m ([v, r, s, c, a, z5, z6, z7, z8, z9, b10, b11, b12, b13, cmd] @ rest) =
     Some (None, m\<lparr>Version := v, Reserved := r, Seq := s, Class := c, AuthType := a,
                    SessionID := be32 b10 b11 b12 b13, Command := cmd,
                    Data := (if rest = [] then Data m else rest)\<rparr>)"
  using assms by (cases rest) (simp_all add: Unpack_def idx_def subslice_def)

text \<open>
  C1 (amended). For every frame \<open>f\<close> with RMCP version 0x06 and class 0x07 and every
  receiver \<open>m\<close>, packing never fails and unpacking the packed bytes into \<open>m\<close>
  succeeds; the result equals \<open>f\<close> in the RMCP header, AuthType, SessionID and
  Command, and in Data when \<open>f\<close> has data. Sequence is not on the wire: the result
  keeps the receiver's Sequence (and the receiver's Data when \<open>f\<close> has none).
\<close>

theorem Unpack_Pack:
  assumes "Version f = 0x06" and "Class f = 0x07"
  shows "snd (Pack f) = None \<and>
         Unpack m (fst (Pack f)) =
           Some (None, f\<lparr>Sequence := Sequence m,
                          Data := (if Data f = [] then Data m else Data f)\<rparr>)"
proof -
  have "Unpack m (fst (Pack f)) =
          Some (None, m\<lparr>Version := Version f, Reserved := Reserved f, Seq := Seq f,
                         Class := Class f, AuthType := AuthType f,
                         SessionID := SessionID f, Command := Command f,
                         Data := (if Data f = [] then Data m else Data f)\<rparr>)"
    unfolding Pack_bytes using assms by (simp only: Unpack_prefix be32_bytes)
  moreover have "snd (Pack f) = None"
    by (simp add: Pack_def)
  ultimately show ?thesis by simp
qed

theorem Unpack_Pack_witness:
  "snd (Pack frame_seq1) = None \<and>
   Unpack new_Message (fst (Pack frame_seq1)) = Some (None, frame_seq1\<lparr>Sequence := 0\<rparr>)"
  using Unpack_Pack [of frame_seq1 new_Message]
  by (simp add: frame_seq1_def new_Message_def)

text \<open>
  C1 as stated fails: the frame \<open>frame_seq1\<close> is valid and carries Sequence 1, and
  unpacking its packed bytes into a fresh message gives Sequence 0.
\<close>

theorem Unpack_Pack_loses_Sequence:
  "Version frame_seq1 = 0x06 \<and> Class frame_seq1 = 0x07 \<and>
   Unpack new_Message (fst (Pack frame_seq1)) \<noteq> Some (None, frame_seq1) \<and>
   map_option (Sequence \<circ> snd) (Unpack new_Message (fst (Pack frame_seq1))) = Some 0 \<and>
   Sequence frame_seq1 = 1"
  by (simp add: frame_seq1_def new_Message_def Pack_def Unpack_def idx_def subslice_def be32_def)

section \<open>The decoders\<close>

lemma Unpack_no_panic: "Unpack m data \<noteq> None"
  by (simp add: Unpack_def idx_def subslice_def Let_def)

lemma Unpack_fails_iff:
  "(\<exists>e m'. Unpack m data = Some (Some e, m')) \<longleftrightarrow>
     (length data < 15 \<or> data ! 0 \<noteq> 0x06 \<or> data ! 3 \<noteq> 0x07)"
  by (auto simp add: Unpack_def idx_def subslice_def Let_def)

lemma field32:
  "off + 4 \<le> length buf \<Longrightarrow>
     subslice buf off (off + 4) = Some (take 4 (drop off buf)) \<and>
     LittleEndian_Uint32 (take 4 (drop off buf)) = Some (le32_at buf off)"
  by (simp add: subslice_def LittleEndian_Uint32_def idx_def le32_at_def add.commute)

lemma field16:
  "off + 2 \<le> length buf \<Longrightarrow>
     subslice buf off (off + 2) = Some (take 2 (drop off buf)) \<and>
     LittleEndian_Uint16 (take 2 (drop off buf)) = Some (le16_at buf off)"
  by (simp add: subslice_def LittleEndian_Uint16_def idx_def le16_at_def add.commute)

lemma ReceiveMessage_decode:
  assumes "16 \<le> n" and "n \<le> length buf"
  shows "ReceiveMessage H False (Some (n, buf)) (l\<lparr>active := True, conn := Some c\<rparr>) =
    (if buf ! 0 \<noteq> 0x06 \<or> buf ! 3 \<noteq> 0x07
     then Some (Inl InvalidRMCPHeader, l\<lparr>active := True, conn := Some c\<rparr>)
     else if buf ! 5 \<noteq> RMCPPLUS_PAYLOAD_IPMI
     then Some (Inl (UnexpectedPayloadType (buf ! 5)), l\<lparr>active := True, conn := Some c\<rparr>)
     else
       let l1 = l\<lparr>active := True, conn := Some c, sequenceNum := le32_at buf 10\<rparr>;
           payloadEnd = 16 + unat (le16_at buf 14)
       in if le32_at buf 6 \<noteq> sessionID l then Some (Inl InvalidSessionID, l1)
          else if payloadEnd > n then Some (Inl PayloadLengthExceeds, l1)
          else if buf ! 4 \<noteq> RMCPPLUS_AUTH_NONE \<and> authenticated l
          then if payloadEnd + 20 > n then Some (Inl TooShortForAuthCode, l1)
               else if take 20 (drop payloadEnd buf) \<noteq> H (password l) (take payloadEnd buf)
               then Some (Inl AuthenticationFailed, l1)
               else Some (Inr (take (unat (le16_at buf 14)) (drop 16 buf)), l1)
          else Some (Inr (take (unat (le16_at buf 14)) (drop 16 buf)), l1))"
proof -
  define pe where "pe = 16 + unat (le16_at buf 14)"
  have len: "16 \<le> length buf" using assms by linarith
  have i0: "idx buf 0 = Some (buf ! 0)" and i3: "idx buf 3 = Some (buf ! 3)"
    and i4: "idx buf 4 = Some (buf ! 4)" and i5: "idx buf 5 = Some (buf ! 5)"
    using len by (auto simp add: idx_def)
  have f6: "subslice buf 6 10 = Some (take 4 (drop 6 buf))"
      "LittleEndian_Uint32 (take 4 (drop 6 buf)) = Some (le32_at buf 6)"
    using field32 [of 6 buf] len by simp_all
  have f10: "subslice buf 10 14 = Some (take 4 (drop 10 buf))"
      "LittleEndian_Uint32 (take 4 (drop 10 buf)) = Some (le32_at buf 10)"
    using field32 [of 10 buf] len by simp_all
  have f14: "subslice buf 14 16 = Some (take 2 (drop 14 buf))"
      "LittleEndian_Uint16 (take 2 (drop 14 buf)) = Some (le16_at buf 14)"
    using field16 [of 14 buf] len by simp_all
  have p1: "subslice buf 16 pe = Some (take (unat (le16_at buf 14)) (drop 16 buf))"
    if "pe \<le> n"
    using that assms by (simp add: subslice_def pe_def)
  have p2: "subslice buf pe (pe + 20) = Some (take 20 (drop pe buf))" if "pe + 20 \<le> n"
    using that assms by (simp add: subslice_def)
  have p3: "subslice buf 0 pe = Some (take pe buf)" if "pe \<le> n"
    using that assms by (simp add: subslice_def)
  note facts = ReceiveMessage_def i0 i3 i4 i5 f6 f10 f14 Let_def generateAuthCode_def
  show ?thesis
  proof (cases "pe \<le> n")
    case False
    then show ?thesis
      using assms(1) by (simp add: facts pe_def)
  next
    case le: True
    show ?thesis
    proof (cases "pe + 20 \<le> n")
      case True
      then show ?thesis
        using assms(1) le by (simp add: facts p1 p2 p3 flip: pe_def)
    next
      case False
      then show ?thesis
        using assms(1) le by (simp add: facts p1 p3 flip: pe_def)
    qed
  qed
qed


text \<open>
  C2 (amended). \<^verbatim>\<open>Message.Unpack\<close> fails exactly when the buffer has fewer than 15
  bytes, or its version byte is not 0x06, or its class byte is not 0x07; a legacy frame
  declares no payload length. \<^verbatim>\<open>ReceiveMessage\<close>, once it has read \<open>n\<close> bytes,
  fails exactly when \<open>n < 16\<close>, or the version or class byte differs, or the payload
  type is not IPMI, or the session id is not the session's, or the declared payload
  length exceeds the \<open>n\<close> bytes, or, when the frame's authentication type is not
  "none" and the session is authenticated, the 20-byte code is missing or differs.
  Neither decoder panics, whatever the bytes: no index at or past the end is read,
  even in a buffer that is exactly \<open>n\<close> bytes long.
\<close>

theorem decoders_fail_iff:
  assumes "n \<le> length buf"
  shows "Unpack m data \<noteq> None \<and>
    ((\<exists>e m'. Unpack m data = Some (Some e, m')) \<longleftrightarrow>
       (length data < 15 \<or> data ! 0 \<noteq> 0x06 \<or> data ! 3 \<noteq> 0x07)) \<and>
    ReceiveMessage H False (Some (n, buf)) (l\<lparr>active := True, conn := Some c\<rparr>) \<noteq> None \<and>
    ((\<exists>e l'. ReceiveMessage H False (Some (n, buf)) (l\<lparr>active := True, conn := Some c\<rparr>) =
               Some (Inl e, l')) \<longleftrightarrow>
       (n < 16 \<or> buf ! 0 \<noteq> 0x06 \<or> buf ! 3 \<noteq> 0x07 \<or> buf ! 5 \<noteq> RMCPPLUS_PAYLOAD_IPMI \<or>
        le32_at buf 6 \<noteq> sessionID l \<or> n < 16 + unat (le16_at buf 14) \<or>
        (buf ! 4 \<noteq> RMCPPLUS_AUTH_NONE \<and> authenticated l \<and>
         (n < 16 + unat (le16_at buf 14) + 20 \<or>
          take 20 (drop (16 + unat (le16_at buf 14)) buf) \<noteq>
            H (password l) (take (16 + unat (le16_at buf 14)) buf)))))"
proof (cases "16 \<le> n")
  case True
  show ?thesis
    unfolding ReceiveMessage_decode [OF True assms]
    using True by (auto simp add: Unpack_no_panic Unpack_fails_iff Let_def)
next
  case False
  then show ?thesis
    by (simp add: Unpack_no_panic Unpack_fails_iff ReceiveMessage_def)
qed

theorem decoders_fail_iff_witness:
  "(16 :: nat) \<le> length frame_seq0 \<and>
   Unpack new_Message (fst (Pack frame_seq1)) \<noteq> None \<and>
   \<not> (\<exists>e m'. Unpack new_Message (fst (Pack frame_seq1)) = Some (Some e, m')) \<and>
   ReceiveMessage H0 False (Some (16, frame_seq0)) session5 \<noteq> None \<and>
   \<not> (\<exists>e l'. ReceiveMessage H0 False (Some (16, frame_seq0)) session5 = Some (Inl e, l'))"
  using decoders_fail_iff [where n = 16 and buf = frame_seq0 and m = new_Message
      and data = "fst (Pack frame_seq1)" and H = H0
      and l = "(NewLANPlus [])\<lparr>sequenceNum := 5\<rparr>" and c = fresh_conn]
  by (simp add: session5_def frame_seq0_def frame_seq1_def Pack_def NewLANPlus_def
      le32_at_def le16_at_def be32_def RMCPPLUS_PAYLOAD_IPMI_def RMCPPLUS_AUTH_NONE_def)

text \<open>
  C2 as stated fails: \<open>frame_sol\<close> has the full 16-byte header, version 0x06, class
  0x07 and a declared payload length of 0, and \<^verbatim>\<open>ReceiveMessage\<close> rejects it, for its
  payload type.
\<close>

theorem ReceiveMessage_rejects_payload_type:
  "length frame_sol = 16 \<and> frame_sol ! 0 = 0x06 \<and> frame_sol ! 3 = 0x07 \<and>
   16 + unat (le16_at frame_sol 14) = 16 \<and>
   ReceiveMessage H0 False (Some (16, frame_sol)) session5 =
     Some (Inl (UnexpectedPayloadType 0x01), session5)"
  by (simp add: frame_sol_def session5_def le16_at_def ReceiveMessage_def idx_def
      RMCPPLUS_PAYLOAD_IPMI_def NewLANPlus_def)



section \<open>The sequence counter\<close>

lemma word32_le_add_of_nat:
  fixes w :: uint32
  assumes "unat w + k < 2 ^ 32"
  shows "w \<le> w + of_nat k"
proof -
  have k: "k < 2 ^ 32" using assms by linarith
  have "unat (of_nat k :: uint32) = k"
    using k by (simp add: unat_of_nat take_bit_nat_eq_self)
  then have "unat (w + of_nat k) = unat w + k"
    using assms by (simp add: unat_word_ariths)
  then show ?thesis
    by (simp add: word_le_nat_alt)
qed

lemma SendMessage_sequenceNum:
  "SendMessage H wfail l msg = Some (err, l') \<Longrightarrow>
     sequenceNum l' = (if err = None then sequenceNum l + 1 else sequenceNum l)"
  by (auto simp add: SendMessage_def Let_def split: if_splits Option.bind_splits)

lemma run_sends_sequenceNum:
  "list_all is_Send ops \<Longrightarrow> run_ops H ops l = Some l' \<Longrightarrow>
     \<exists>k \<le> length ops. sequenceNum l' = sequenceNum l + of_nat k"
proof (induction ops arbitrary: l)
  case Nil
  then show ?case by simp
next
  case (Cons x xs)
  from Cons.prems(1) obtain msg wfail where x: "x = Send msg wfail"
    by (cases x) simp_all
  from Cons.prems(2) x obtain err l1 where
    s: "SendMessage H wfail l msg = Some (err, l1)" and r: "run_ops H xs l1 = Some l'"
    by (auto simp add: bind_eq_Some_conv)
  from Cons.IH [OF _ r] Cons.prems(1) obtain k where
    k: "k \<le> length xs" "sequenceNum l' = sequenceNum l1 + of_nat k"
    by auto
  show ?case
  proof (cases "err = None")
    case True
    with SendMessage_sequenceNum [OF s] k
    have "sequenceNum l' = sequenceNum l + of_nat (Suc k)" by simp
    with k(1) show ?thesis by (intro exI [of _ "Suc k"]) simp
  next
    case False
    with SendMessage_sequenceNum [OF s] k
    have "sequenceNum l' = sequenceNum l + of_nat k" by simp
    with k(1) show ?thesis by (intro exI [of _ k]) simp
  qed
qed

text \<open>
  C8 (amended). A session has one sequence counter for both directions.
  \<^verbatim>\<open>SendMessage\<close> advances it by one (modulo \<open>2^32\<close>) when the message is written,
  and leaves it as it is when the session is not active or the write fails.
  \<^verbatim>\<open>ReceiveMessage\<close> overwrites it with the sequence number of every received
  frame that passes the length, RMCP header and payload type checks, whatever that
  number is, and leaves it as it is in every other case: the session is not active,
  the deadline or the read fails, or the frame fails one of those checks. (On an
  active session without a connection either call panics.) Across any run of
  \<^verbatim>\<open>SendMessage\<close> operations alone the counter never decreases, as long as it does
  not wrap around \<open>2^32\<close>.
\<close>

theorem sequenceNum_recorded:
  "map_option (sequenceNum \<circ> snd) (SendMessage H wfail l msg) =
     (if \<not> active l then Some (sequenceNum l)
      else if conn l = None then None
      else Some (if wfail then sequenceNum l else sequenceNum l + 1)) \<and>
   ((case rd of None \<Rightarrow> True | Some (n, buf) \<Rightarrow> n \<le> length buf) \<longrightarrow>
      map_option (sequenceNum \<circ> snd) (ReceiveMessage H dfail rd l) =
       (if \<not> active l then Some (sequenceNum l)
        else if conn l = None then None
        else Some (case rd of
                     None \<Rightarrow> sequenceNum l
                   | Some (n, buf) \<Rightarrow>
                       if \<not> dfail \<and> 16 \<le> n \<and> buf ! 0 = 0x06 \<and> buf ! 3 = 0x07 \<and>
                          buf ! 5 = RMCPPLUS_PAYLOAD_IPMI
                       then le32_at buf 10 else sequenceNum l))) \<and>
   (list_all is_Send ops \<and> run_ops H ops l = Some l' \<and>
    unat (sequenceNum l) + length ops < 2 ^ 32 \<longrightarrow> sequenceNum l \<le> sequenceNum l')"
proof (intro conjI impI)
  show "map_option (sequenceNum \<circ> snd) (SendMessage H wfail l msg) =
     (if \<not> active l then Some (sequenceNum l)
      else if conn l = None then None
      else Some (if wfail then sequenceNum l else sequenceNum l + 1))"
    by (cases "conn l") (simp_all add: SendMessage_def Let_def)
next
  assume bound: "case rd of None \<Rightarrow> True | Some (n, buf) \<Rightarrow> n \<le> length buf"
  show "map_option (sequenceNum \<circ> snd) (ReceiveMessage H dfail rd l) =
       (if \<not> active l then Some (sequenceNum l)
        else if conn l = None then None
        else Some (case rd of
                     None \<Rightarrow> sequenceNum l
                   | Some (n, buf) \<Rightarrow>
                       if \<not> dfail \<and> 16 \<le> n \<and> buf ! 0 = 0x06 \<and> buf ! 3 = 0x07 \<and>
                          buf ! 5 = RMCPPLUS_PAYLOAD_IPMI
                       then le32_at buf 10 else sequenceNum l))"
  proof (cases "active l \<and> conn l \<noteq> None \<and> \<not> dfail \<and> rd \<noteq> None")
    case False
    then show ?thesis
      by (cases "conn l"; cases rd) (auto simp add: ReceiveMessage_def)
  next
    case True
    then obtain c n buf where c: "conn l = Some c" and rd: "rd = Some (n, buf)"
      by (cases rd) auto
    from True c have l: "l\<lparr>active := True, conn := Some c\<rparr> = l" by simp
    from bound rd have le: "n \<le> length buf" by simp
    show ?thesis
    proof (cases "16 \<le> n")
      case n16: True
      from ReceiveMessage_decode [OF n16 le, where H = H and l = l and c = c] True c rd n16 show ?thesis
        unfolding l by (simp add: Let_def)
    next
      case False
      with True c rd show ?thesis by (simp add: ReceiveMessage_def)
    qed
  qed
next
  assume a: "list_all is_Send ops \<and> run_ops H ops l = Some l' \<and>
    unat (sequenceNum l) + length ops < 2 ^ 32"
  then obtain k where k: "k \<le> length ops" "sequenceNum l' = sequenceNum l + of_nat k"
    using run_sends_sequenceNum by blast
  with a have "unat (sequenceNum l) + k < 2 ^ 32" by linarith
  then show "sequenceNum l \<le> sequenceNum l'"
    unfolding k(2) by (rule word32_le_add_of_nat)
qed

theorem sequenceNum_recorded_witness:
  "map_option (sequenceNum \<circ> snd) (SendMessage H0 False session5 [0x01]) = Some 6 \<and>
   map_option (sequenceNum \<circ> snd) (ReceiveMessage H0 False (Some (16, frame_seq0)) session5) = Some 0 \<and>
   run_ops H0 [Send [0x01] False, Send [0x02] True] session5 \<noteq> None \<and>
   sequenceNum session5 \<le> sequenceNum (the (run_ops H0 [Send [0x01] False, Send [0x02] True] session5))"
proof -
  let ?ops = "[Send [0x01] False, Send [0x02] True]"
  have vals: "active session5" "sequenceNum session5 = 5" "conn session5 = Some fresh_conn"
    by (simp_all add: session5_def)
  have run: "run_ops H0 ?ops session5 \<noteq> None"
    by (simp add: session5_def NewLANPlus_def SendMessage_def Let_def)
  then obtain l' where l': "run_ops H0 ?ops session5 = Some l'" by blast
  have pre: "list_all is_Send ?ops \<and> run_ops H0 ?ops session5 = Some l' \<and>
     unat (sequenceNum session5) + length ?ops < 2 ^ 32"
    using l' by (simp add: vals)
  have fr: "(16 :: nat) \<le> length frame_seq0" "frame_seq0 ! 0 = 0x06" "frame_seq0 ! 3 = 0x07"
      "frame_seq0 ! 5 = RMCPPLUS_PAYLOAD_IPMI" "le32_at frame_seq0 10 = 0"
    by (simp_all add: frame_seq0_def le32_at_def be32_def RMCPPLUS_PAYLOAD_IPMI_def)
  from sequenceNum_recorded [where H = H0 and wfail = False and l = session5
      and msg = "[0x01]" and dfail = False and rd = "Some (16, frame_seq0)"
      and ops = ?ops and l' = l']
  have "map_option (sequenceNum \<circ> snd) (SendMessage H0 False session5 [0x01]) = Some 6"
    and "map_option (sequenceNum \<circ> snd)
          (ReceiveMessage H0 False (Some (16, frame_seq0)) session5) = Some 0"
    and "sequenceNum session5 \<le> sequenceNum l'"
    using pre fr by (simp_all add: vals)
  then show ?thesis
    using run l' by simp
qed

text \<open>
  C8 as stated fails: the counter of \<open>session5\<close> stands at 5, and receiving a valid
  frame with sequence number 0 sets it to 0.
\<close>

theorem ReceiveMessage_lowers_sequenceNum:
  "sequenceNum session5 = 5 \<and>
   run_ops H0 [Receive False (Some (16, frame_seq0))] session5 =
     Some (session5\<lparr>sequenceNum := 0\<rparr>) \<and>
   ReceiveMessage H0 False (Some (16, frame_seq0)) session5 =
     Some (Inr [], session5\<lparr>sequenceNum := 0\<rparr>) \<and>
   \<not> (sequenceNum session5 \<le> sequenceNum (session5\<lparr>sequenceNum := 0\<rparr>))"
  by (simp add: frame_seq0_def session5_def ReceiveMessage_def idx_def subslice_def
      LittleEndian_Uint32_def LittleEndian_Uint16_def be32_def
      RMCPPLUS_PAYLOAD_IPMI_def RMCPPLUS_AUTH_NONE_def NewLANPlus_def Let_def)


section \<open>The client handshake\<close>

text \<open>
  C10 (the code at the failing input). A session that is not active, as every session
  is before \<^verbatim>\<open>Connect\<close> returns, dials and draws its session id, and then
  \<^verbatim>\<open>SendMessage\<close> refuses the first handshake message: nothing is written to the
  connection, and the error is "session not active", not "session establishment not
  yet implemented".
\<close>

theorem Connect_sends_nothing:
  "Connect H (\<lambda>a. True) (Some (r0, r1, r2, r3)) wfail (l\<lparr>active := False\<rparr>) addr =
     Some (Some (SessionOpenFailed (SendRAKPFailed SessionNotActive)),
           l\<lparr>active := False, sessionID := be32 r3 r2 r1 r0,
             conn := Some \<lparr>written = [], closed = True\<rparr>\<rparr>)"
  by (simp add: Connect_def openSession_def SendMessage_def LittleEndian_Uint32_def idx_def Let_def)

text \<open>Whatever the environment does, \<^verbatim>\<open>Connect\<close> returns an error and never activates.\<close>

lemma Connect_never_active:
  "Connect H dial rnd wfail l addr = Some (err, l') \<Longrightarrow> err \<noteq> None \<and> active l' = active l"
  by (auto simp add: Connect_def openSession_def SendMessage_def Let_def
      split: if_splits option.splits prod.splits Option.bind_splits)

section \<open>The chassis command handlers\<close>

text \<open>
  C3 (amended). In both servers a power cycle request calls \<^verbatim>\<open>PowerOffVM\<close> first.
  If that fails, \<^verbatim>\<open>PowerOnVM\<close> is not called (the trace grows by the one call) and
  the response is the handler's failure response; if it succeeds, \<^verbatim>\<open>PowerOnVM\<close> is
  called next, and the response is the failure response if that fails and the success
  response if both succeed. For the bmc server the failure response is
  \<^verbatim>\<open>ErrUnspecified\<close> and the success response \<^verbatim>\<open>CommandCompleted\<close>; for the ipmi
  server the failure response is completion code 0x01 and the success response a
  \<^verbatim>\<open>ChassisControlResponse\<close> with completion code 0x00. The hypotheses say what the
  compiler checks of the switch: the case constants differ.
\<close>

theorem PowerCycle_responses:
  assumes "ControlPowerCycle g \<noteq> ControlPowerDown g"
    and "ControlPowerCycle g \<noteq> ControlPowerUp g"
    and "ControlPowerCycle g \<noteq> ControlPowerHardReset g"
  shows "handleChassisControl g hv (Some (ControlPowerCycle g)) tr =
    (if hv tr PowerOffVM then (CompletionCode (ErrUnspecified g), tr @ [PowerOffVM])
     else if hv (tr @ [PowerOffVM]) PowerOnVM
     then (CompletionCode (ErrUnspecified g), tr @ [PowerOffVM, PowerOnVM])
     else (CompletionCode (CommandCompleted g), tr @ [PowerOffVM, PowerOnVM])) \<and>
   handleChassisControl_ipmi hv (Some 0x02) tr =
    (if hv tr PowerOffVM then (CompletionCode 0x01, tr @ [PowerOffVM])
     else if hv (tr @ [PowerOffVM]) PowerOnVM
     then (CompletionCode 0x01, tr @ [PowerOffVM, PowerOnVM])
     else (ChassisControlResponse 0x00, tr @ [PowerOffVM, PowerOnVM]))"
  using assms
  by (simp add: handleChassisControl_def handleChassisControl_ipmi_def vs_call_def)

theorem PowerCycle_responses_witness:
  "handleChassisControl ipmi_tables power_on_fails (Some 0x02) [] =
     (CompletionCode 0xFF, [PowerOffVM, PowerOnVM]) \<and>
   handleChassisControl ipmi_tables (\<lambda>tr c. c = PowerOffVM) (Some 0x02) [] =
     (CompletionCode 0xFF, [PowerOffVM]) \<and>
   handleChassisControl ipmi_tables (\<lambda>tr c. False) (Some 0x02) [] =
     (CompletionCode 0x00, [PowerOffVM, PowerOnVM]) \<and>
   handleChassisControl_ipmi power_on_fails (Some 0x02) [] =
     (CompletionCode 0x01, [PowerOffVM, PowerOnVM]) \<and>
   handleChassisControl_ipmi (\<lambda>tr c. False) (Some 0x02) [] =
     (ChassisControlResponse 0x00, [PowerOffVM, PowerOnVM])"
  using PowerCycle_responses [of ipmi_tables power_on_fails "[]"]
    PowerCycle_responses [of ipmi_tables "\<lambda>tr c. c = PowerOffVM" "[]"]
    PowerCycle_responses [of ipmi_tables "\<lambda>tr c. False" "[]"]
  by (simp add: ipmi_tables_def power_on_fails_def)

text \<open>
  C3 as stated fails on the ipmi server: a failed \<^verbatim>\<open>PowerOffVM\<close>, and a failed
  \<^verbatim>\<open>PowerOnVM\<close> after it, are answered with completion code 0x01, which is not the
  code of \<^verbatim>\<open>ErrUnspecified\<close>.
\<close>

theorem PowerCycle_ipmi_not_Unspecified:
  "handleChassisControl_ipmi (\<lambda>tr c. c = PowerOffVM) (Some 0x02) [] =
     (CompletionCode 0x01, [PowerOffVM]) \<and>
   handleChassisControl_ipmi power_on_fails (Some 0x02) [] =
     (CompletionCode 0x01, [PowerOffVM, PowerOnVM]) \<and>
   CompletionCode 0x01 \<noteq> CompletionCode (ErrUnspecified ipmi_tables)"
  by (simp add: handleChassisControl_ipmi_def vs_call_def power_on_fails_def ipmi_tables_def)

text \<open>
  C6. A Set System Boot Options request whose parameter is not the boot flags
  parameter is answered with \<^verbatim>\<open>CommandCompleted\<close>, and the trace is unchanged: neither
  \<^verbatim>\<open>SetNextBoot\<close> nor any other call is made.
\<close>

theorem handleSetSystemBootOptions_other_param:
  assumes "Param r \<noteq> BootParamBootFlags g"
  shows "handleSetSystemBootOptions g hv (Some r) tr =
           Some (SetSystemBootOptionsResponse (CommandCompleted g), tr)"
  using assms by (simp add: handleSetSystemBootOptions_def)

theorem handleSetSystemBootOptions_other_param_witness:
  "handleSetSystemBootOptions ipmi_tables (\<lambda>tr c. True)
     (Some \<lparr>Param = 0x04, Data' = [0x08, 0x08]\<rparr>) [] =
     Some (SetSystemBootOptionsResponse 0x00, [])"
  using handleSetSystemBootOptions_other_param
    [of "\<lparr>Param = 0x04, Data' = [0x08, 0x08]\<rparr>" ipmi_tables "\<lambda>tr c. True" "[]"]
  by (simp add: ipmi_tables_def)

lemma handleSetSystemBootOptions_ipmi_other_param:
  "Param r \<noteq> BootParamBootFlags g \<Longrightarrow>
     handleSetSystemBootOptions_ipmi g hv (Some r) tr =
       Some (SetSystemBootOptionsResponse 0x00, tr)"
  by (simp add: handleSetSystemBootOptions_ipmi_def)

text \<open>
  C5 (the code at the failing input). The boot flags request with the five data bytes
  0x80, 0x48, 0, 0, 0 selects the disk once the two high bits of the second byte are
  masked off (0x48 AND 0x3F = 0x08). The handler switches on the byte as it is, finds
  no case for 0x48 and answers \<^verbatim>\<open>ErrInvalidObjCommand\<close> without a call; the earlier
  handler masks and calls \<^verbatim>\<open>SetNextBoot\<close> for the disk.
\<close>

theorem handleSetSystemBootOptions_no_mask:
  "(0x48 :: byte) AND 0x3F = BootDeviceDisk ipmi_tables \<and>
   handleSetSystemBootOptions ipmi_tables hv
     (Some \<lparr>Param = BootParamBootFlags ipmi_tables, Data' = [0x80, 0x48, 0x00, 0x00, 0x00]\<rparr>) tr =
     Some (CompletionCode (ErrInvalidObjCommand ipmi_tables), tr) \<and>
   handleSetSystemBootOptions_ipmi ipmi_tables hv
     (Some \<lparr>Param = BootParamBootFlags ipmi_tables, Data' = [0x80, 0x48, 0x00, 0x00, 0x00]\<rparr>) tr =
     Some (if hv tr (SetNextBoot BootDeviceHDD) then CompletionCode 0x01
           else SetSystemBootOptionsResponse 0x00, tr @ [SetNextBoot BootDeviceHDD])"
  by (simp add: handleSetSystemBootOptions_def handleSetSystemBootOptions_ipmi_def
      ipmi_tables_def idx_def vs_call_def)

text \<open>
  What the handler does with a boot flags request that has its second data byte: the
  mapping of the claim, on the unmasked byte.
\<close>

lemma handleSetSystemBootOptions_unmasked:
  assumes "Param r = BootParamBootFlags g" and "1 < length (Data' r)"
    and "distinct [BootDeviceNone g, BootDeviceDisk g, BootDeviceCdrom g, BootDevicePxe g,
                   BootDeviceFloppy' g]"
  shows "handleSetSystemBootOptions g hv (Some r) tr =
    (let d1 = Data' r ! 1 in
     if d1 = BootDeviceNone g then Some (SetSystemBootOptionsResponse (CommandCompleted g), tr)
     else if d1 \<in> {BootDeviceDisk g, BootDeviceCdrom g, BootDevicePxe g, BootDeviceFloppy' g}
     then
       let dev = (if d1 = BootDeviceDisk g then BootDeviceHDD
                  else if d1 = BootDeviceCdrom g then BootDeviceCDROM
                  else if d1 = BootDevicePxe g then BootDevicePXE else BootDeviceFloppy)
       in Some (if hv tr (SetNextBoot dev) then CompletionCode (ErrUnspecified g)
                else SetSystemBootOptionsResponse (CommandCompleted g), tr @ [SetNextBoot dev])
     else Some (CompletionCode (ErrInvalidObjCommand g), tr))"
  using assms by (auto simp add: handleSetSystemBootOptions_def idx_def vs_call_def Let_def)


section \<open>The session simulator\<close>

text \<open>
  C7. Every Activate Session request is answered with \<^verbatim>\<open>CommandCompleted\<close>. The
  session set afterwards holds, under the new id (the number of sessions plus one),
  a session with that id, user "admin" and privilege 0x04; its ids are the old ones
  and the new one; every other session and the users are as before.
\<close>

theorem handleActivateSession_admin:
  "(let sid = (of_nat (fcard (fmdom (sessions s)) + 1) :: uint32);
        s' = snd (handleActivateSession g s m)
    in fst (handleActivateSession g s m) = CompletionCode (CommandCompleted g) \<and>
       fmlookup (sessions s') sid = Some \<lparr>ID = sid, Username = ''admin'', Privilege = 0x04\<rparr> \<and>
       fmdom (sessions s') = finsert sid (fmdom (sessions s)) \<and>
       fmdrop sid (sessions s') = fmdrop sid (sessions s) \<and>
       users s' = users s)"
  by (simp add: handleActivateSession_def Let_def fmdrop_fmupd_same)

text \<open>
  C9 (amended). Close Session, for any session id, known or unknown, is answered with
  \<^verbatim>\<open>CommandCompleted\<close> and leaves the simulator as it is: the session set is
  unchanged, so a session created by Activate Session is still in it.
\<close>

theorem handleCloseSession_keeps_sessions:
  "(let sid = (of_nat (fcard (fmdom (sessions s)) + 1) :: uint32);
        s1 = snd (handleActivateSession g s m0)
    in fst (handleCloseSession g s m) = CompletionCode (CommandCompleted g) \<and>
       snd (handleCloseSession g s m) = s \<and>
       fmlookup (sessions (snd (handleCloseSession g s1 m))) sid =
         Some \<lparr>ID = sid, Username = ''admin'', Privilege = 0x04\<rparr>)"
  by (simp add: handleCloseSession_def handleActivateSession_def Let_def)

text \<open>
  C9 as stated fails: the session with id 1 that Activate Session creates on a new
  simulator is still in the session set after Close Session for id 1.
\<close>

theorem CloseSession_leaves_session:
  "(let s1 = snd (handleActivateSession ipmi_tables NewIPMI2Simulator ());
        s2 = snd (handleCloseSession ipmi_tables s1 (1 :: uint32))
    in fmlookup (sessions s1) 1 = Some \<lparr>ID = 1, Username = ''admin'', Privilege = 0x04\<rparr> \<and>
       fst (handleCloseSession ipmi_tables s1 (1 :: uint32)) = CompletionCode 0x00 \<and>
       fmlookup (sessions s2) 1 = Some \<lparr>ID = 1, Username = ''admin'', Privilege = 0x04\<rparr> \<and>
       1 |\<in>| fmdom (sessions s2))"
  by (simp add: handleActivateSession_def handleCloseSession_def NewIPMI2Simulator_def
      ipmi_tables_def Let_def fcard_fempty)


section \<open>Address assignment at startup\<close>

text \<open>
  C4 (the code at the failing input). With the range 10.0.0.1 to 10.0.0.2 and two
  machines, both versions of \<^verbatim>\<open>main\<close> find two addresses in the range and go on.
  \<^verbatim>\<open>ipRange\<close> has moved \<open>startIP\<close> to the end of the range, so the first server is
  started on 10.0.0.2 and the second on 10.0.0.3, outside the range. Both servers
  hold the slice \<open>currentIP\<close>, and once the loop is over both see 10.0.0.4 in it.
\<close>

theorem startup_overruns_range:
  "map_option (map_sum id (\<lambda>f. (servers f, started f, final_addresses f)))
     (startup [10, 0, 0, 1] [10, 0, 0, 2] [''vm1'', ''vm2'']) =
   Some (Inr ([\<lparr>vm = ''vm1'', ip = 2\<rparr>, \<lparr>vm = ''vm2'', ip = 2\<rparr>],
              [(''vm1'', [10, 0, 0, 2]), (''vm2'', [10, 0, 0, 3])],
              [[10, 0, 0, 4], [10, 0, 0, 4]])) \<and>
   map_option (map_sum id (\<lambda>f. (servers f, started f, final_addresses f)))
     (startup_used [10, 0, 0, 1] [10, 0, 0, 2] True [''vm1'', ''vm2'']) =
   Some (Inr ([\<lparr>vm = ''vm1'', ip = 2\<rparr>, \<lparr>vm = ''vm2'', ip = 2\<rparr>],
              [(''vm1'', [10, 0, 0, 2]), (''vm2'', [10, 0, 0, 3])],
              [[10, 0, 0, 4], [10, 0, 0, 4]]))"
  by (simp add: startup_def startup_used_def ipRange_def ipRange_loop.simps skip_used.simps
      incrementIP_def Let_def NewServer_def final_addresses_def)

text \<open>
  The first address is always the end of the range: when \<^verbatim>\<open>ipRange\<close> returns,
  \<open>start\<close> equals \<open>end\<close>, and \<open>end\<close> is what it was. Every server holds the same
  slice.
\<close>

lemma ipRange_loop_ends_equal:
  assumes "ipRange_loop i s e h = Some y"
  shows "snd y s = snd y e \<and> (s \<noteq> e \<longrightarrow> snd y e = h e)"
  using assms
proof (induction rule: ipRange_loop.raw_induct)
  case (1 f i start end' h y)
  show ?case
  proof (cases "h start = h end'")
    case True
    with 1(2) show ?thesis by auto
  next
    case False
    with 1(2) have "f (i + 1) start end' (h(start := incrementIP (h start))) = Some y"
      by simp
    moreover from False 1(3)
    have "ipRange_loop (i + 1) start end' (h(start := incrementIP (h start))) = Some y"
      by (simp add: ipRange_loop.simps [of i])
    ultimately show ?thesis using 1(1) by fastforce
  qed
qed (rule assms)

lemma start_servers_shared:
  "set (map ip (servers (start_servers vms a h))) \<subseteq> {a}"
  by (induction vms arbitrary: h) (auto simp add: Let_def NewServer_def)

lemma startup_first_address:
  assumes "startup start end' (v # vms) = Some (Inr f)"
  shows "hd (started f) = (v, end')"
proof -
  let ?h0 = "(\<lambda>a. [])(0 := start, Suc 0 := end')"
  from assms obtain n h1 where r: "ipRange_loop 1 0 1 ?h0 = Some (n, h1)"
    and f: "f = start_servers (v # vms) 2 (h1(2 := h1 0))"
    by (auto simp add: startup_def ipRange_def Let_def bind_eq_Some_conv split: if_splits)
  from ipRange_loop_ends_equal [OF r] have "h1 0 = end'" by simp
  with f show ?thesis by (simp add: Let_def)
qed

end
